theory Spec2Isabelle
  imports Complex_Main
begin

section \<open>Text and integers as the interpreter handles them\<close>

text \<open>
  The gradebook manager is a Python script (\<^verbatim>\<open>gradebook_manager.py\<close>). Its strings are
  modelled as HOL strings in which a character stands for the code point of the same
  number, so the model covers text over the code points 0 to 255. Python's integers are
  unbounded and are modelled by \<open>int\<close>; the interpreter's configurable limit on the
  number of digits that \<^verbatim>\<open>int()\<close> and \<^verbatim>\<open>str()\<close> convert is not part of the model.

  \<^verbatim>\<open>str.strip()\<close> removes the characters for which \<^verbatim>\<open>str.isspace()\<close> holds from both
  ends. Below code point 256 these are 9 to 13, 28 to 32, 133 and 160.
\<close>

definition py_isspace :: "char \<Rightarrow> bool" where
  "py_isspace c =
     (let n = (of_char c :: nat)
      in (9 \<le> n \<and> n \<le> 13) \<or> (28 \<le> n \<and> n \<le> 32) \<or> n = 133 \<or> n = 160)"

definition strip_with :: "(char \<Rightarrow> bool) \<Rightarrow> string \<Rightarrow> string" where
  "strip_with p s = rev (dropWhile p (rev (dropWhile p s)))"

definition py_strip :: "string \<Rightarrow> string" where
  "py_strip s = strip_with py_isspace s"

text \<open>
  \<^verbatim>\<open>str.lower()\<close> maps A to Z and the capital letters 192 to 222 (without the
  multiplication sign 215) to the letter 32 code points higher, and leaves every other
  character below 256 as it is.
\<close>

definition py_lower_char :: "char \<Rightarrow> char" where
  "py_lower_char c =
     (let n = (of_char c :: nat)
      in if (65 \<le> n \<and> n \<le> 90) \<or> (192 \<le> n \<and> n \<le> 222 \<and> n \<noteq> 215)
         then char_of (n + 32) else c)"

definition py_lower :: "string \<Rightarrow> string" where
  "py_lower s = map py_lower_char s"

text \<open>
  \<^verbatim>\<open>int(s)\<close> on a string, base ten: surrounding whitespace is skipped (here the
  characters 28 to 31 do not count as whitespace), then comes an optional sign, then
  decimal digits, where a single underscore may stand between two digits. Anything else
  raises \<^verbatim>\<open>ValueError\<close>, which is the result \<open>None\<close>.
\<close>

definition int_isspace :: "char \<Rightarrow> bool" where
  "int_isspace c =
     (let n = (of_char c :: nat)
      in (9 \<le> n \<and> n \<le> 13) \<or> n = 32 \<or> n = 133 \<or> n = 160)"

definition is_digit :: "char \<Rightarrow> bool" where
  "is_digit c = (let n = (of_char c :: nat) in 48 \<le> n \<and> n \<le> 57)"

definition digit_val :: "char \<Rightarrow> int" where
  "digit_val c = int (of_char c) - 48"

fun ok_digits :: "string \<Rightarrow> bool" where
  "ok_digits [] = False"
| "ok_digits [c] = is_digit c"
| "ok_digits (c # d # cs) =
     (is_digit c \<and> (if d = CHR ''_'' then ok_digits cs else ok_digits (d # cs)))"

definition digits_value :: "string \<Rightarrow> int" where
  "digits_value s = foldl (\<lambda>acc c. 10 * acc + digit_val c) 0 (filter is_digit s)"

definition py_int :: "string \<Rightarrow> int option" where
  "py_int s =
     (case strip_with int_isspace s of
        [] \<Rightarrow> None
      | c # cs \<Rightarrow>
          if c = CHR ''-'' then
            (if ok_digits cs then Some (- digits_value cs) else None)
          else if c = CHR ''+'' then
            (if ok_digits cs then Some (digits_value cs) else None)
          else
            (if ok_digits (c # cs) then Some (digits_value (c # cs)) else None))"

text \<open>\<^verbatim>\<open>str(n)\<close> on an integer: the decimal digits, after a minus sign when negative.\<close>

definition digit_char :: "nat \<Rightarrow> char" where
  "digit_char d = char_of (48 + d)"

fun nat_digits :: "nat \<Rightarrow> string" where
  "nat_digits n =
     (if n < 10 then [digit_char n] else nat_digits (n div 10) @ [digit_char (n mod 10)])"

definition py_str :: "int \<Rightarrow> string" where
  "py_str i = (if i < 0 then CHR ''-'' # nat_digits (nat (- i)) else nat_digits (nat i))"

text \<open>
  The builtins \<^verbatim>\<open>max\<close> and \<^verbatim>\<open>min\<close> keep the first item and replace it by a later
  one that is strictly greater (smaller). Both raise on an empty sequence; every call in
  the script is guarded by an emptiness test, so the first item is an argument here.
\<close>

definition py_max :: "int \<Rightarrow> int list \<Rightarrow> int" where
  "py_max x xs = foldl (\<lambda>m y. if m < y then y else m) x xs"

definition py_min :: "int \<Rightarrow> int list \<Rightarrow> int" where
  "py_min x xs = foldl (\<lambda>m y. if y < m then y else m) x xs"


section \<open>Data model\<close>

text \<open>
  A student is the dictionary with the keys \<^verbatim>\<open>id\<close>, \<^verbatim>\<open>name\<close>, \<^verbatim>\<open>subject\<close> and
  \<^verbatim>\<open>grade\<close> that \<^verbatim>\<open>load_students\<close> and \<^verbatim>\<open>add_student\<close> build; the grade is an
  integer or \<^verbatim>\<open>None\<close>.
\<close>

record student =
  st_id :: int
  st_name :: string
  st_subject :: string
  st_grade :: "int option"

text \<open>
  The persisted table is read with \<^verbatim>\<open>csv.DictReader\<close> and written with
  \<^verbatim>\<open>csv.DictWriter\<close>. The model starts from what the reader hands to the script: one
  dictionary per data row. Under each of the four keys the script looks at, a row has a
  string (\<open>Str\<close>), the value \<^verbatim>\<open>None\<close> that the reader fills in when the row is shorter
  than the header (\<open>PyNone\<close>), or nothing because the header has no such column
  (\<open>Missing\<close>). A file is its list of data rows, or \<open>None\<close> while it does not exist.
  In a real file the columns that are missing are the same in every row; nothing below
  depends on that, and the sample files respect it.
  That the reader returns the strings the writer was given is the contract of the csv
  module and is built into this representation.
\<close>

datatype cell = Missing | PyNone | Str string

record csv_row =
  row_id :: cell
  row_name :: cell
  row_subject :: cell
  row_grade :: cell

type_synonym csv_file = "csv_row list option"

datatype py_error = AttributeError

text \<open>\<^verbatim>\<open>row.get(key)\<close> is truthy for a non-empty string only.\<close>

fun truthy :: "cell \<Rightarrow> bool" where
  "truthy (Str s) = (s \<noteq> [])"
| "truthy PyNone = False"
| "truthy Missing = False"

text \<open>
  \<^verbatim>\<open>row.get(key, "").strip()\<close>: the default covers a missing key only; on the value
  \<^verbatim>\<open>None\<close> the call of \<^verbatim>\<open>strip\<close> raises \<^verbatim>\<open>AttributeError\<close>.
\<close>

fun get_strip :: "cell \<Rightarrow> py_error + string" where
  "get_strip Missing = Inr (py_strip [])"
| "get_strip PyNone = Inl AttributeError"
| "get_strip (Str s) = Inr (py_strip s)"

text \<open>\<^verbatim>\<open>int(row["id"])\<close>, reached only when the cell is truthy, hence a string.\<close>

fun int_of_cell :: "cell \<Rightarrow> int option" where
  "int_of_cell (Str s) = py_int s"
| "int_of_cell PyNone = None"
| "int_of_cell Missing = None"


section \<open>Record store\<close>

definition ensure_file :: "csv_file \<Rightarrow> csv_file" where
  "ensure_file f = (case f of None \<Rightarrow> Some [] | Some rows \<Rightarrow> Some rows)"

text \<open>
  The loop of \<^verbatim>\<open>load_students\<close> over the rows, with the list it appends to. A row
  without a truthy id or with an id that does not parse is passed over; an exception
  ends the loop and the call.
\<close>

fun load_rows :: "csv_row list \<Rightarrow> student list \<Rightarrow> py_error + student list" where
  "load_rows [] students = Inr students"
| "load_rows (row # rows) students =
     (if \<not> truthy (row_id row) then load_rows rows students
      else case int_of_cell (row_id row) of
        None \<Rightarrow> load_rows rows students
      | Some sid \<Rightarrow>
          (case get_strip (row_grade row) of
             Inl e \<Rightarrow> Inl e
           | Inr grade_raw \<Rightarrow>
               (let grade_val = (if grade_raw \<noteq> [] then py_int grade_raw else None)
                in case get_strip (row_name row) of
                     Inl e \<Rightarrow> Inl e
                   | Inr name \<Rightarrow>
                       (case get_strip (row_subject row) of
                          Inl e \<Rightarrow> Inl e
                        | Inr subject \<Rightarrow>
                            load_rows rows
                              (students @
                                [\<lparr>st_id = sid, st_name = name, st_subject = subject,
                                  st_grade = grade_val\<rparr>])))))"

text \<open>
  \<^verbatim>\<open>load_students\<close> returns the file as \<^verbatim>\<open>ensure_file\<close> leaves it together with the
  list of students or the exception raised.
\<close>

definition load_students :: "csv_file \<Rightarrow> csv_file \<times> (py_error + student list)" where
  "load_students f =
     (let f1 = ensure_file f
      in (f1, load_rows (case f1 of None \<Rightarrow> [] | Some rows \<Rightarrow> rows) []))"

definition student_row :: "student \<Rightarrow> csv_row" where
  "student_row s =
     \<lparr>row_id = Str (py_str (st_id s)),
      row_name = Str (st_name s),
      row_subject = Str (st_subject s),
      row_grade = Str (case st_grade s of None \<Rightarrow> [] | Some g \<Rightarrow> py_str g)\<rparr>"

text \<open>\<^verbatim>\<open>save_students\<close> replaces the whole file, whatever it held.\<close>

definition save_students :: "csv_file \<Rightarrow> student list \<Rightarrow> csv_file" where
  "save_students f students = Some (map student_row students)"

definition next_id :: "student list \<Rightarrow> int" where
  "next_id students =
     (case students of
        [] \<Rightarrow> 1
      | s # rest \<Rightarrow> py_max (st_id s) (map st_id rest) + 1)"


section \<open>Command handlers\<close>

text \<open>
  A handler takes the file and the lines the user types at its prompts, and returns the
  file afterwards together with either the exception that ended it or the message it
  printed last. The messages are the constructors below; the table that
  \<^verbatim>\<open>delete_student\<close> prints through \<^verbatim>\<open>list_students\<close> before its first prompt is
  presentation only and is left out.
\<close>

datatype add_outcome =
    NameEmpty          \<comment> \<open>\<^verbatim>\<open>Name cannot be empty. Cancelled.\<close>\<close>
  | GradeOutOfRange    \<comment> \<open>\<^verbatim>\<open>Grade must be between 0 and 100. Cancelled.\<close>\<close>
  | GradeInvalid       \<comment> \<open>\<^verbatim>\<open>Invalid grade. Use an integer between 0 and 100. Cancelled.\<close>\<close>
  | Added student      \<comment> \<open>\<^verbatim>\<open>Added student id=...\<close>\<close>

definition add_student ::
  "csv_file \<Rightarrow> string \<Rightarrow> string \<Rightarrow> string \<Rightarrow> csv_file \<times> (py_error + add_outcome)" where
  "add_student f name_in subject_in grade_in =
     (case load_students f of
        (f1, Inl e) \<Rightarrow> (f1, Inl e)
      | (f1, Inr students) \<Rightarrow>
          (let sid = next_id students;
               name = py_strip name_in
           in if name = [] then (f1, Inr NameEmpty)
              else
                (let subject =
                       (if py_strip subject_in = [] then ''General'' else py_strip subject_in);
                     grade_raw = py_strip grade_in
                 in case py_int grade_raw of
                      None \<Rightarrow> (f1, Inr GradeInvalid)
                    | Some grade_val \<Rightarrow>
                        if grade_val < 0 \<or> grade_val > 100 then (f1, Inr GradeOutOfRange)
                        else
                          (let new_student =
                                 \<lparr>st_id = sid, st_name = name, st_subject = subject,
                                  st_grade = Some grade_val\<rparr>
                           in (save_students f1 (students @ [new_student]),
                               Inr (Added new_student))))))"

datatype delete_outcome =
    NoStudentsFound    \<comment> \<open>\<^verbatim>\<open>No students found.\<close>\<close>
  | InvalidId          \<comment> \<open>\<^verbatim>\<open>Invalid id. Cancelled.\<close>\<close>
  | NoSuchStudent      \<comment> \<open>\<^verbatim>\<open>No student with that id. Nothing deleted.\<close>\<close>
  | Cancelled          \<comment> \<open>\<^verbatim>\<open>Cancelled.\<close>\<close>
  | Deleted int        \<comment> \<open>\<^verbatim>\<open>Deleted student id=...\<close>\<close>

definition delete_student ::
  "csv_file \<Rightarrow> string \<Rightarrow> string \<Rightarrow> csv_file \<times> (py_error + delete_outcome)" where
  "delete_student f id_in confirm_in =
     (case load_students f of
        (f1, Inl e) \<Rightarrow> (f1, Inl e)
      | (f1, Inr students) \<Rightarrow>
          if students = [] then (f1, Inr NoStudentsFound)
          else
            (case py_int (py_strip id_in) of
               None \<Rightarrow> (f1, Inr InvalidId)
             | Some sid \<Rightarrow>
                 (case find (\<lambda>s. st_id s = sid) students of
                    None \<Rightarrow> (f1, Inr NoSuchStudent)
                  | Some target \<Rightarrow>
                      (let confirm = py_lower (py_strip confirm_in)
                       in if confirm \<noteq> ''yes'' then (f1, Inr Cancelled)
                          else (save_students f1 (filter (\<lambda>s. st_id s \<noteq> sid) students),
                                Inr (Deleted sid))))))"

text \<open>
  \<^verbatim>\<open>show_stats\<close> reports a title, the count, the mean, the highest and the lowest
  grade. \<^verbatim>\<open>statistics.mean\<close> computes the exact quotient of sum and count; the report
  carries this rational number. Its conversion to a float and the rendering with two
  decimals are not modelled.
\<close>

datatype stats_outcome =
    NoStudents         \<comment> \<open>\<^verbatim>\<open>No students to compute statistics.\<close>\<close>
  | NoGradedStudents   \<comment> \<open>\<^verbatim>\<open>No graded students found for this selection.\<close>\<close>
  | Report string nat rat int int

text \<open>
  The selection inside \<^verbatim>\<open>show_stats\<close>: the list \<^verbatim>\<open>filtered\<close> and the \<^verbatim>\<open>title\<close>.
  A filter that is \<^verbatim>\<open>None\<close> or the empty string is falsy and selects on the grade alone.
\<close>

definition stats_filtered :: "student list \<Rightarrow> string option \<Rightarrow> student list \<times> string" where
  "stats_filtered students subject_filter =
     (case subject_filter of
        None \<Rightarrow>
          (filter (\<lambda>s. st_grade s \<noteq> None) students, ''Statistics (all students)'')
      | Some flt \<Rightarrow>
          if flt = [] then
            (filter (\<lambda>s. st_grade s \<noteq> None) students, ''Statistics (all students)'')
          else
            (filter (\<lambda>s. py_lower (st_subject s) = py_lower flt \<and> st_grade s \<noteq> None)
               students,
             ''Statistics for subject: '' @ flt))"

definition show_stats ::
  "csv_file \<Rightarrow> string option \<Rightarrow> csv_file \<times> (py_error + stats_outcome)" where
  "show_stats f subject_filter =
     (case load_students f of
        (f1, Inl e) \<Rightarrow> (f1, Inl e)
      | (f1, Inr students) \<Rightarrow>
          if students = [] then (f1, Inr NoStudents)
          else
            (let (filtered, title) = stats_filtered students subject_filter
             in case map (\<lambda>s. the (st_grade s)) filtered of
                  [] \<Rightarrow> (f1, Inr NoGradedStudents)
                | g # gs \<Rightarrow>
                    (f1, Inr (Report title (length (g # gs))
                                (of_int (sum_list (g # gs)) / of_int (int (length (g # gs))))
                                (py_max g gs) (py_min g gs)))))"


section \<open>Notions used to state the properties\<close>

text \<open>
  Two record lists are equivalent up to trimming when they agree after the text fields
  of each record have lost their surrounding whitespace; identifier and grade are
  compared as they are.
\<close>

definition normalize_student :: "student \<Rightarrow> student" where
  "normalize_student s =
     s\<lparr>st_name := py_strip (st_name s), st_subject := py_strip (st_subject s)\<rparr>"

text \<open>The grades that are known, in the order of the records.\<close>

definition known_grades :: "student list \<Rightarrow> int list" where
  "known_grades students =
     concat (map (\<lambda>s. case st_grade s of None \<Rightarrow> [] | Some g \<Rightarrow> [g]) students)"

text \<open>
  A record is selected by a subject filter when no filter is given, or when its subject
  and the filter are the same text once both are lowercased.
\<close>

definition subject_selected :: "string option \<Rightarrow> student \<Rightarrow> bool" where
  "subject_selected subject_filter s =
     (case subject_filter of
        None \<Rightarrow> True
      | Some flt \<Rightarrow> if flt = [] then True else py_lower (st_subject s) = py_lower flt)"

text \<open>
  Equality of two texts without regard to case, said without the lowercasing function:
  the texts have the same length, and at each position the two characters are the same
  or are the capital and the small form of one letter. Below code point 256 the capital
  letters are A to Z and 192 to 222 without the multiplication sign 215, and the small
  form of a capital letter lies 32 code points higher.
\<close>

definition is_capital :: "char \<Rightarrow> bool" where
  "is_capital c =
     (let n = (of_char c :: nat)
      in (65 \<le> n \<and> n \<le> 90) \<or> (192 \<le> n \<and> n \<le> 222 \<and> n \<noteq> 215))"

definition same_letter :: "char \<Rightarrow> char \<Rightarrow> bool" where
  "same_letter c d =
     (c = d
      \<or> (is_capital c \<and> (of_char d :: nat) = of_char c + 32)
      \<or> (is_capital d \<and> (of_char c :: nat) = of_char d + 32))"

definition equal_ignoring_case :: "string \<Rightarrow> string \<Rightarrow> bool" where
  "equal_ignoring_case a b = list_all2 same_letter a b"

text \<open>The four numbers of a statistics report, when one is printed.\<close>

definition reported ::
  "csv_file \<times> (py_error + stats_outcome) \<Rightarrow> (nat \<times> rat \<times> int \<times> int) option" where
  "reported r =
     (case snd r of
        Inr (Report title n avg hi lo) \<Rightarrow> Some (n, avg, hi, lo)
      | Inr NoStudents \<Rightarrow> None
      | Inr NoGradedStudents \<Rightarrow> None
      | Inl e \<Rightarrow> None)"

text \<open>Sample data for the scenarios.\<close>

definition sample_student :: "int \<Rightarrow> string \<Rightarrow> string \<Rightarrow> int option \<Rightarrow> student" where
  "sample_student i n sj g = \<lparr>st_id = i, st_name = n, st_subject = sj, st_grade = g\<rparr>"

definition sample_row :: "string \<Rightarrow> string \<Rightarrow> string \<Rightarrow> string \<Rightarrow> csv_row" where
  "sample_row i n sj g =
     \<lparr>row_id = Str i, row_name = Str n, row_subject = Str sj, row_grade = Str g\<rparr>"

text \<open>Stores and record lists of the scenarios.\<close>

definition ids_124 :: "student list" where
  "ids_124 = [sample_student 1 ''Ann'' ''Math'' (Some 70),
              sample_student 2 ''Bob'' ''Art'' None,
              sample_student 4 ''Cy'' ''Math'' (Some 90)]"

definition short_row :: csv_row where
  "short_row =
     \<lparr>row_id = Str ''2'', row_name = Str ''Bob'', row_subject = PyNone, row_grade = PyNone\<rparr>"

definition two_rows :: csv_file where
  "two_rows = Some [sample_row ''1'' ''Ann'' ''Math'' ''70'', sample_row ''2'' ''Bob'' ''Art'' '''']"

definition two_students :: "student list" where
  "two_students = [sample_student 1 ''Ann'' ''Math'' (Some 70), sample_student 2 ''Bob'' ''Art'' None]"

definition math_store :: csv_file where
  "math_store = Some [sample_row ''1'' ''Ann'' ''Math'' ''70'',
                      sample_row ''2'' ''Bob'' ''Math'' ''80'',
                      sample_row ''3'' ''Cy'' ''Math'' '''',
                      sample_row ''4'' ''Di'' ''Math'' ''90'']"

definition math_students :: "student list" where
  "math_students = [sample_student 1 ''Ann'' ''Math'' (Some 70),
                    sample_student 2 ''Bob'' ''Math'' (Some 80),
                    sample_student 3 ''Cy'' ''Math'' None,
                    sample_student 4 ''Di'' ''Math'' (Some 90)]"

definition subject_students :: "student list" where
  "subject_students = [sample_student 1 ''Ann'' ''Math'' (Some 90),
                       sample_student 2 ''Bob'' ''Mathematics'' (Some 80)]"

definition blank_subject_row :: csv_row where
  "blank_subject_row = sample_row ''1'' ''Ann'' ''  '' ''90''"

definition no_subject_row :: csv_row where
  "no_subject_row =
     \<lparr>row_id = Str ''2'', row_name = Str ''Bob'', row_subject = Missing, row_grade = Str ''80''\<rparr>"

definition subject_store :: csv_file where
  "subject_store = Some [sample_row ''1'' ''Ann'' ''Math'' ''90'',
                         sample_row ''2'' ''Bob'' ''Mathematics'' ''80'']"


section \<open>Maximum and minimum\<close>

lemma py_max_Max: "py_max x xs = Max (insert x (set xs))"
proof (induction xs arbitrary: x)
  case Nil
  then show ?case by (simp add: py_max_def)
next
  case (Cons y ys)
  have "py_max x (y # ys) = py_max (if x < y then y else x) ys"
    by (simp add: py_max_def)
  also have "\<dots> = Max (insert (if x < y then y else x) (set ys))"
    by (rule Cons.IH)
  also have "\<dots> = Max (insert x (set (y # ys)))"
  proof (cases "set ys = {}")
    case True
    then show ?thesis by (simp add: max_def)
  next
    case False
    then show ?thesis by (auto simp: max_def)
  qed
  finally show ?case .
qed

lemma py_min_Min: "py_min x xs = Min (insert x (set xs))"
proof (induction xs arbitrary: x)
  case Nil
  then show ?case by (simp add: py_min_def)
next
  case (Cons y ys)
  have "py_min x (y # ys) = py_min (if y < x then y else x) ys"
    by (simp add: py_min_def)
  also have "\<dots> = Min (insert (if y < x then y else x) (set ys))"
    by (rule Cons.IH)
  also have "\<dots> = Min (insert x (set (y # ys)))"
  proof (cases "set ys = {}")
    case True
    then show ?thesis by (simp add: min_def)
  next
    case False
    then show ?thesis by (auto simp: min_def)
  qed
  finally show ?case .
qed

lemma next_id_nonempty:
  "students \<noteq> [] \<Longrightarrow> next_id students = Max (st_id ` set students) + 1"
  by (cases students) (simp_all add: next_id_def py_max_Max)

lemma next_id_fresh: "s \<in> set students \<Longrightarrow> st_id s < next_id students"
proof -
  assume a: "s \<in> set students"
  then have ne: "students \<noteq> []" by auto
  have "st_id s \<le> Max (st_id ` set students)" using a by simp
  then show ?thesis using next_id_nonempty [OF ne] by simp
qed


section \<open>Conversions between integers and text\<close>

declare nat_digits.simps [simp del]

lemma is_digit_digit_char: "d < 10 \<Longrightarrow> is_digit (digit_char d)"
  by (simp add: is_digit_def digit_char_def of_char_of)

lemma digit_val_digit_char: "d < 10 \<Longrightarrow> digit_val (digit_char d) = int d"
  by (simp add: digit_val_def digit_char_def of_char_of)

lemma is_digit_not_special:
  "is_digit c \<Longrightarrow> c \<noteq> CHR ''_'' \<and> c \<noteq> CHR ''-'' \<and> c \<noteq> CHR ''+''"
  by (auto simp: is_digit_def)

lemma is_digit_not_space: "is_digit c \<Longrightarrow> \<not> int_isspace c \<and> \<not> py_isspace c"
  by (auto simp: is_digit_def int_isspace_def py_isspace_def Let_def)

lemma minus_not_space: "\<not> int_isspace CHR ''-'' \<and> \<not> py_isspace CHR ''-''"
  by (simp add: int_isspace_def py_isspace_def)

lemma nat_digits_nonempty: "nat_digits n \<noteq> []"
  by (subst nat_digits.simps) simp

lemma nat_digits_all_digits: "list_all is_digit (nat_digits n)"
proof (induction n rule: nat_digits.induct)
  case (1 n)
  show ?case
  proof (cases "n < 10")
    case True
    then show ?thesis by (subst nat_digits.simps) (simp add: is_digit_digit_char)
  next
    case False
    with "1" show ?thesis by (subst nat_digits.simps) (simp add: is_digit_digit_char)
  qed
qed

lemma digits_value_snoc:
  "is_digit c \<Longrightarrow> digits_value (s @ [c]) = 10 * digits_value s + digit_val c"
  by (simp add: digits_value_def)

lemma digits_value_nat_digits: "digits_value (nat_digits n) = int n"
proof (induction n rule: nat_digits.induct)
  case (1 n)
  show ?case
  proof (cases "n < 10")
    case True
    then have "nat_digits n = [digit_char n]" by (subst nat_digits.simps) simp
    with True show ?thesis
      by (simp add: digits_value_def is_digit_digit_char digit_val_digit_char)
  next
    case False
    then have e: "nat_digits n = nat_digits (n div 10) @ [digit_char (n mod 10)]"
      by (subst nat_digits.simps) simp
    have "digits_value (nat_digits n) = 10 * digits_value (nat_digits (n div 10)) + int (n mod 10)"
      by (simp add: e digits_value_snoc is_digit_digit_char digit_val_digit_char)
    also have "\<dots> = 10 * int (n div 10) + int (n mod 10)"
      using "1" False by simp
    also have "\<dots> = int n" by presburger
    finally show ?thesis .
  qed
qed

lemma ok_digits_all_digits: "s \<noteq> [] \<Longrightarrow> list_all is_digit s \<Longrightarrow> ok_digits s"
proof (induction s rule: ok_digits.induct)
  case 1
  then show ?case by simp
next
  case (2 c)
  then show ?case by simp
next
  case (3 c d cs)
  then have "d \<noteq> CHR ''_''" using is_digit_not_special by auto
  with 3 show ?case by simp
qed

lemma last_dropWhile:
  "dropWhile P xs \<noteq> [] \<Longrightarrow> last (dropWhile P xs) = last xs"
  by (induction xs) (auto split: if_splits)

lemma strip_with_fixed:
  assumes "s \<noteq> []" and "\<not> p (hd s)" and "\<not> p (last s)"
  shows "strip_with p s = s"
proof -
  have a: "dropWhile p s = s" using assms(2) by (simp add: dropWhile_eq_self_iff)
  have "hd (rev s) = last s" using assms(1) by (simp add: hd_rev)
  then have b: "dropWhile p (rev s) = rev s"
    using assms(3) by (simp add: dropWhile_eq_self_iff)
  show ?thesis by (simp add: strip_with_def a b)
qed

lemma strip_with_Nil: "strip_with p [] = []"
  by (simp add: strip_with_def)

lemma strip_with_ends:
  assumes "strip_with p s \<noteq> []"
  shows "\<not> p (hd (strip_with p s)) \<and> \<not> p (last (strip_with p s))"
proof -
  let ?u = "dropWhile p s"
  let ?v = "dropWhile p (rev ?u)"
  have v: "?v \<noteq> []" using assms by (simp add: strip_with_def)
  have u: "?u \<noteq> []"
  proof
    assume "?u = []"
    then have "?v = []" by (simp only: rev.simps dropWhile.simps)
    with v show False by simp
  qed
  have "last (strip_with p s) = hd ?v" using v by (simp add: strip_with_def last_rev)
  moreover have "\<not> p (hd ?v)" using v by (rule hd_dropWhile)
  moreover have "hd (strip_with p s) = last ?v" using v by (simp add: strip_with_def hd_rev)
  moreover have "last ?v = last (rev ?u)" using v by (rule last_dropWhile)
  moreover have "last (rev ?u) = hd ?u" using u by (simp add: last_rev)
  moreover have "\<not> p (hd ?u)" using u by (rule hd_dropWhile)
  ultimately show ?thesis by simp
qed

lemma strip_with_idem: "strip_with p (strip_with p s) = strip_with p s"
proof (cases "strip_with p s = []")
  case True
  then show ?thesis by (simp add: strip_with_Nil)
next
  case False
  then show ?thesis using strip_with_ends [OF False] by (simp add: strip_with_fixed)
qed

lemma py_strip_idem: "py_strip (py_strip s) = py_strip s"
  by (simp add: py_strip_def strip_with_idem)

lemma py_str_nonempty: "py_str i \<noteq> []"
  by (simp add: py_str_def nat_digits_nonempty)

lemma hd_nat_digits: "is_digit (hd (nat_digits n))"
  using nat_digits_all_digits [of n] nat_digits_nonempty [of n]
  by (cases "nat_digits n") simp_all

lemma last_nat_digits: "is_digit (last (nat_digits n))"
  using nat_digits_all_digits [of n] nat_digits_nonempty [of n]
  by (simp add: list_all_iff)

lemma py_str_ends:
  "\<not> int_isspace (hd (py_str i)) \<and> \<not> int_isspace (last (py_str i))
   \<and> \<not> py_isspace (hd (py_str i)) \<and> \<not> py_isspace (last (py_str i))"
  using hd_nat_digits last_nat_digits is_digit_not_space minus_not_space
  by (simp add: py_str_def nat_digits_nonempty)

lemma py_strip_py_str: "py_strip (py_str i) = py_str i"
  using py_str_ends [of i] by (simp add: py_strip_def strip_with_fixed py_str_nonempty)

lemma py_int_py_str: "py_int (py_str i) = Some i"
proof -
  have s: "strip_with int_isspace (py_str i) = py_str i"
    using py_str_ends [of i] by (simp add: strip_with_fixed py_str_nonempty)
  show ?thesis
  proof (cases "i < 0")
    case True
    have "ok_digits (nat_digits (nat (- i)))"
      by (simp add: ok_digits_all_digits nat_digits_nonempty nat_digits_all_digits)
    with True show ?thesis
      unfolding py_int_def s by (simp add: py_str_def digits_value_nat_digits)
  next
    case False
    obtain c cs where e: "nat_digits (nat i) = c # cs"
      using nat_digits_nonempty [of "nat i"] by (cases "nat_digits (nat i)") auto
    have "is_digit c" using hd_nat_digits [of "nat i"] by (simp add: e)
    then have c: "c \<noteq> CHR ''-''" "c \<noteq> CHR ''+''" using is_digit_not_special by auto
    have ok: "ok_digits (c # cs)"
      using ok_digits_all_digits [of "nat_digits (nat i)"]
      by (simp add: e [symmetric] nat_digits_nonempty nat_digits_all_digits)
    have v: "digits_value (c # cs) = int (nat i)"
      using digits_value_nat_digits [of "nat i"] by (simp add: e)
    from False show ?thesis
      using c ok v unfolding py_int_def s by (simp add: py_str_def e)
  qed
qed


section \<open>Loading what was saved\<close>

lemma ensure_file_idem: "ensure_file (ensure_file f) = ensure_file f"
  by (simp add: ensure_file_def split: option.splits)

lemma ensure_file_Some: "ensure_file (Some rows) = Some rows"
  by (simp add: ensure_file_def)

lemma fst_load_students: "fst (load_students f) = ensure_file f"
  by (simp add: load_students_def Let_def)

lemma load_students_ensure: "load_students (ensure_file f) = load_students f"
  by (simp add: load_students_def Let_def ensure_file_idem)

lemma load_students_Some: "load_students (Some rows) = (Some rows, load_rows rows [])"
  by (simp add: load_students_def ensure_file_def)

lemma py_strip_Nil: "py_strip [] = []"
  by (simp add: py_strip_def strip_with_def)

lemma load_student_row:
  "load_rows (student_row s # rows) acc = load_rows rows (acc @ [normalize_student s])"
proof (cases "st_grade s")
  case None
  then show ?thesis
    by (cases s)
      (simp add: student_row_def normalize_student_def py_str_nonempty py_int_py_str
        py_strip_Nil)
next
  case (Some g)
  then show ?thesis
    by (cases s)
      (simp add: student_row_def normalize_student_def py_str_nonempty py_int_py_str
        py_strip_py_str)
qed

lemma load_rows_saved:
  "load_rows (map student_row students) acc = Inr (acc @ map normalize_student students)"
proof (induction students arbitrary: acc)
  case Nil
  then show ?case by simp
next
  case (Cons s students)
  have "load_rows (map student_row (s # students)) acc
        = load_rows (map student_row students) (acc @ [normalize_student s])"
    by (simp only: list.map load_student_row)
  then show ?case by (simp add: Cons.IH)
qed

lemma load_students_saved:
  "load_students (save_students f students)
   = (save_students f students, Inr (map normalize_student students))"
  by (simp add: save_students_def load_students_Some load_rows_saved)

text \<open>Every student that the loop appends has trimmed text fields.\<close>

lemma load_rows_normalized:
  "load_rows rows acc = Inr students \<Longrightarrow> list_all (\<lambda>s. normalize_student s = s) acc
   \<Longrightarrow> list_all (\<lambda>s. normalize_student s = s) students"
proof (induction rows acc rule: load_rows.induct)
  case (1 students)
  then show ?case by simp
next
  case (2 row rows acc)
  show ?case
  proof (cases "truthy (row_id row)")
    case False
    with 2 show ?thesis by simp
  next
    case True
    show ?thesis
    proof (cases "int_of_cell (row_id row)")
      case None
      with True 2 show ?thesis by simp
    next
      case (Some sid)
      from "2.prems"(1) True Some obtain grade_raw name subject where
        g: "get_strip (row_grade row) = Inr grade_raw" and
        n: "get_strip (row_name row) = Inr name" and
        s: "get_strip (row_subject row) = Inr subject"
        by (auto simp: Let_def split: sum.splits)
      have nn: "py_strip name = name" using n
        by (cases "row_name row") (auto simp: py_strip_idem)
      have ss: "py_strip subject = subject" using s
        by (cases "row_subject row") (auto simp: py_strip_idem)
      let ?new = "\<lparr>st_id = sid, st_name = name, st_subject = subject,
                    st_grade = (if grade_raw \<noteq> [] then py_int grade_raw else None)\<rparr>"
      have l: "load_rows rows (acc @ [?new]) = Inr students"
        using "2.prems"(1) True Some g n s by (simp add: Let_def)
      have a: "list_all (\<lambda>s. normalize_student s = s) (acc @ [?new])"
        using "2.prems"(2) nn ss by (simp add: normalize_student_def)
      have nt: "\<not> \<not> truthy (row_id row)" using True by simp
      show ?thesis
        using "2.IH"(3) [OF nt Some g refl n s l a] .
    qed
  qed
qed

lemma load_students_normalized:
  "snd (load_students f) = Inr students \<Longrightarrow> map normalize_student students = students"
proof -
  assume "snd (load_students f) = Inr students"
  then have "load_rows (case ensure_file f of None \<Rightarrow> [] | Some rows \<Rightarrow> rows) [] = Inr students"
    by (simp add: load_students_def Let_def)
  then have "list_all (\<lambda>s. normalize_student s = s) students"
    by (rule load_rows_normalized) simp
  then show ?thesis by (simp add: list_all_iff map_idI)
qed

lemma filter_normalized:
  "map normalize_student students = students
   \<Longrightarrow> map normalize_student (filter P students) = filter P students"
  by (induction students) auto

section \<open>The handlers, case by case\<close>

lemma load_students_split:
  "load_students f = (ensure_file f, snd (load_students f))"
  by (simp add: load_students_def Let_def)

lemma add_student_raises:
  "snd (load_students f) = Inl e
   \<Longrightarrow> add_student f name_in subject_in grade_in = (ensure_file f, Inl e)"
  by (subst add_student_def, subst load_students_split) simp

lemma add_student_loaded:
  assumes "snd (load_students f) = Inr students"
  shows "add_student f name_in subject_in grade_in =
     (if py_strip name_in = [] then (ensure_file f, Inr NameEmpty)
      else case py_int (py_strip grade_in) of
        None \<Rightarrow> (ensure_file f, Inr GradeInvalid)
      | Some grade_val \<Rightarrow>
          if grade_val < 0 \<or> grade_val > 100 then (ensure_file f, Inr GradeOutOfRange)
          else
            (save_students (ensure_file f)
               (students @
                 [\<lparr>st_id = next_id students, st_name = py_strip name_in,
                   st_subject =
                     (if py_strip subject_in = [] then ''General'' else py_strip subject_in),
                   st_grade = Some grade_val\<rparr>]),
             Inr (Added
                 \<lparr>st_id = next_id students, st_name = py_strip name_in,
                   st_subject =
                     (if py_strip subject_in = [] then ''General'' else py_strip subject_in),
                   st_grade = Some grade_val\<rparr>)))"
  by (subst add_student_def, subst load_students_split)
    (simp add: assms Let_def split: option.splits)

lemma delete_student_raises:
  "snd (load_students f) = Inl e
   \<Longrightarrow> delete_student f id_in confirm_in = (ensure_file f, Inl e)"
  by (subst delete_student_def, subst load_students_split) simp

lemma delete_student_loaded:
  assumes "snd (load_students f) = Inr students"
  shows "delete_student f id_in confirm_in =
     (if students = [] then (ensure_file f, Inr NoStudentsFound)
      else case py_int (py_strip id_in) of
        None \<Rightarrow> (ensure_file f, Inr InvalidId)
      | Some sid \<Rightarrow>
          if sid \<notin> st_id ` set students then (ensure_file f, Inr NoSuchStudent)
          else if py_lower (py_strip confirm_in) \<noteq> ''yes'' then (ensure_file f, Inr Cancelled)
          else (save_students (ensure_file f) (filter (\<lambda>s. st_id s \<noteq> sid) students),
                Inr (Deleted sid)))"
proof -
  have fnd: "\<And>sid. (find (\<lambda>s. st_id s = sid) students = None) = (sid \<notin> st_id ` set students)"
    by (auto simp: find_None_iff)
  have fnd': "\<And>sid t. find (\<lambda>s. st_id s = sid) students = Some t
                 \<Longrightarrow> sid \<in> st_id ` set students"
    by (auto simp: find_Some_iff)
  show ?thesis
    by (subst delete_student_def, subst load_students_split)
      (auto simp: assms Let_def fnd split: option.splits dest: fnd')
qed

lemma filter_distinct_id:
  assumes "distinct (map st_id students)" and "k \<in> st_id ` set students"
  shows "\<exists>xs t ys. students = xs @ t # ys \<and> st_id t = k
           \<and> filter (\<lambda>s. st_id s \<noteq> k) students = xs @ ys"
proof -
  from assms(2) obtain t where t: "t \<in> set students" "st_id t = k" by auto
  then obtain xs ys where sp: "students = xs @ t # ys" by (auto simp: in_set_conv_decomp)
  have "\<forall>s \<in> set xs \<union> set ys. st_id s \<noteq> k"
    using assms(1) t(2) unfolding sp by (auto simp: image_iff)
  then have "filter (\<lambda>s. st_id s \<noteq> k) students = xs @ ys"
    unfolding sp using t(2) by (auto simp: filter_id_conv)
  with sp t(2) show ?thesis by blast
qed

lemma show_stats_raises:
  "snd (load_students f) = Inl e \<Longrightarrow> show_stats f flt = (ensure_file f, Inl e)"
  by (subst show_stats_def, subst load_students_split) simp

lemma stats_grades:
  "map (\<lambda>s. the (st_grade s)) (fst (stats_filtered students flt))
   = known_grades (filter (subject_selected flt) students)"
  by (induction students)
    (auto simp: stats_filtered_def known_grades_def subject_selected_def split: option.splits)

lemma show_stats_loaded:
  assumes "snd (load_students f) = Inr students"
  shows "show_stats f flt =
     (ensure_file f,
      Inr (if students = [] then NoStudents
           else case known_grades (filter (subject_selected flt) students) of
                  [] \<Rightarrow> NoGradedStudents
                | g # gs \<Rightarrow>
                    Report (snd (stats_filtered students flt)) (length (g # gs))
                      (of_int (sum_list (g # gs)) / of_int (int (length (g # gs))))
                      (py_max g gs) (py_min g gs)))"
proof -
  obtain filtered title where ft: "stats_filtered students flt = (filtered, title)"
    by (cases "stats_filtered students flt")
  have g: "map (\<lambda>s. the (st_grade s)) filtered
           = known_grades (filter (subject_selected flt) students)"
    using stats_grades [of students flt] by (simp add: ft)
  show ?thesis
    by (subst show_stats_def, subst load_students_split)
      (simp add: assms ft g split: list.splits)
qed

lemma known_grades_Nil: "known_grades [] = []"
  by (simp add: known_grades_def)

lemma reported_show_stats:
  assumes "snd (load_students f) = Inr students"
  shows "reported (show_stats f flt) =
     (case known_grades (filter (subject_selected flt) students) of
        [] \<Rightarrow> None
      | g # gs \<Rightarrow>
          Some (length (g # gs),
                of_int (sum_list (g # gs)) / of_int (int (length (g # gs))),
                Max (set (g # gs)), Min (set (g # gs))))"
  by (cases "students = []")
    (simp_all add: show_stats_loaded [OF assms] reported_def known_grades_Nil
      py_max_Max py_min_Min split: list.splits)

lemma known_grades_graded_only:
  "known_grades (filter P (filter (\<lambda>s. st_grade s \<noteq> None) students))
   = known_grades (filter P students)"
  by (induction students) (auto simp: known_grades_def)

lemma of_char_py_lower_char:
  "(of_char (py_lower_char c) :: nat) = (if is_capital c then of_char c + 32 else of_char c)"
  by (auto simp: py_lower_char_def is_capital_def Let_def of_char_of)

lemma py_lower_char_eq: "py_lower_char c = py_lower_char d \<longleftrightarrow> same_letter c d"
proof -
  have "py_lower_char c = py_lower_char d
        \<longleftrightarrow> (of_char (py_lower_char c) :: nat) = of_char (py_lower_char d)"
    by simp
  also have "\<dots> \<longleftrightarrow> (if is_capital c then of_char c + 32 else of_char c)
                   = (if is_capital d then of_char d + 32 else (of_char d :: nat))"
    by (simp only: of_char_py_lower_char)
  also have "\<dots> \<longleftrightarrow> ((of_char c :: nat) = of_char d
      \<or> (is_capital c \<and> (of_char d :: nat) = of_char c + 32)
      \<or> (is_capital d \<and> (of_char c :: nat) = of_char d + 32))"
    unfolding is_capital_def Let_def by arith
  also have "\<dots> \<longleftrightarrow> same_letter c d"
    by (simp add: same_letter_def)
  finally show ?thesis .
qed

lemma py_lower_eq: "py_lower a = py_lower b \<longleftrightarrow> equal_ignoring_case a b"
proof -
  have "py_lower a = py_lower b
        \<longleftrightarrow> list_all2 (=) (map py_lower_char a) (map py_lower_char b)"
    by (simp add: py_lower_def list.rel_eq)
  also have "\<dots> \<longleftrightarrow> list_all2 (\<lambda>c d. py_lower_char c = py_lower_char d) a b"
    by (simp add: list_all2_map1 list_all2_map2)
  also have "\<dots> \<longleftrightarrow> equal_ignoring_case a b"
    by (simp add: equal_ignoring_case_def py_lower_char_eq)
  finally show ?thesis .
qed

lemma subject_selected_Some:
  "flt \<noteq> [] \<Longrightarrow> subject_selected (Some flt) s = equal_ignoring_case (st_subject s) flt"
  by (simp add: subject_selected_def py_lower_eq)

lemma stats_title_Some:
  "flt \<noteq> [] \<Longrightarrow> snd (stats_filtered students (Some flt)) = ''Statistics for subject: '' @ flt"
  by (simp add: stats_filtered_def)


section \<open>Properties of the specification\<close>


subsection \<open>Identifier allocation\<close>

text \<open>
  Claim C1. \<^verbatim>\<open>next_id\<close> returns 1 for the empty record list and otherwise one more than
  the greatest identifier in the list. With the identifiers 1, 2 and 4 in the store, in
  any order, the result is 5. When all identifiers in the list are positive, the result
  differs from each of them (it is in fact greater than each, positive or not: lemma
  \<open>next_id_fresh\<close>). The record that a successful \<^verbatim>\<open>add_student\<close> creates
  carries this identifier.
\<close>

theorem next_id_spec:
  "next_id [] = 1
   \<and> (students \<noteq> [] \<longrightarrow> next_id students = Max (st_id ` set students) + 1)
   \<and> (st_id ` set students = {1, 2, 4} \<longrightarrow> next_id students = 5)
   \<and> ((\<forall>s \<in> set students. 0 < st_id s)
        \<longrightarrow> (\<forall>s \<in> set students. next_id students \<noteq> st_id s))
   \<and> (snd (load_students f) = Inr students
        \<and> snd (add_student f name_in subject_in grade_in) = Inr (Added r)
        \<longrightarrow> st_id r = next_id students)"
proof -
  have a: "next_id [] = 1" by (simp add: next_id_def)
  have b: "students \<noteq> [] \<longrightarrow> next_id students = Max (st_id ` set students) + 1"
    by (simp add: next_id_nonempty)
  have c: "st_id ` set students = {1, 2, 4} \<longrightarrow> next_id students = 5"
  proof
    assume m: "st_id ` set students = {1, 2, 4}"
    then have ne: "students \<noteq> []" by auto
    show "next_id students = 5" using next_id_nonempty [OF ne] by (simp add: m)
  qed
  have d: "\<forall>s \<in> set students. next_id students \<noteq> st_id s"
    using next_id_fresh by fastforce
  have e: "snd (load_students f) = Inr students
        \<and> snd (add_student f name_in subject_in grade_in) = Inr (Added r)
        \<longrightarrow> st_id r = next_id students"
  proof
    assume h: "snd (load_students f) = Inr students
        \<and> snd (add_student f name_in subject_in grade_in) = Inr (Added r)"
    then have l: "snd (load_students f) = Inr students" by simp
    from h show "st_id r = next_id students"
      by (auto simp: add_student_loaded [OF l] split: if_splits option.splits)
  qed
  from a b c d e show ?thesis by blast
qed

text \<open>
  The scenario of C1: a store written from records with the identifiers 1, 2 and 4, to
  which a student is added.
\<close>

theorem next_id_spec_witness:
  "ids_124 \<noteq> [] \<and> st_id ` set ids_124 = {1, 2, 4} \<and> list_all (\<lambda>s. 0 < st_id s) ids_124
   \<and> snd (load_students (save_students None ids_124)) = Inr ids_124
   \<and> snd (add_student (save_students None ids_124) ''Di'' '''' ''85'')
       = Inr (Added (sample_student 5 ''Di'' ''General'' (Some 85)))
   \<and> next_id ids_124 = 5
   \<and> Max (st_id ` set ids_124) + 1 = 5
   \<and> list_all (\<lambda>s. next_id ids_124 \<noteq> st_id s) ids_124"
proof -
  have h1: "st_id ` set ids_124 = {1, 2, 4}" by (simp add: ids_124_def sample_student_def)
  have h2: "\<forall>s \<in> set ids_124. 0 < st_id s" by (simp add: ids_124_def sample_student_def)
  have h3: "snd (load_students (save_students None ids_124)) = Inr ids_124" by code_simp
  have h4: "snd (add_student (save_students None ids_124) ''Di'' '''' ''85'')
       = Inr (Added (sample_student 5 ''Di'' ''General'' (Some 85)))" by code_simp
  have h5: "ids_124 \<noteq> []" by (simp add: ids_124_def)
  note t = next_id_spec [of ids_124 "save_students None ids_124" "''Di''" "''''" "''85''"
        "sample_student 5 ''Di'' ''General'' (Some 85)"]
  from t h1 have c1: "next_id ids_124 = 5" by blast
  from t h5 have "next_id ids_124 = Max (st_id ` set ids_124) + 1" by blast
  with c1 have c2: "Max (st_id ` set ids_124) + 1 = 5" by simp
  from t h2 have c3: "\<forall>s \<in> set ids_124. next_id ids_124 \<noteq> st_id s" by blast
  from h1 h2 h3 h4 h5 c1 c2 c3 show ?thesis by (simp add: list_all_iff)
qed


subsection \<open>Grades on load\<close>

text \<open>
  Claim C2 says that every grade \<^verbatim>\<open>load_students\<close> returns lies between 0 and 100
  and that any other grade text becomes unknown. The docstring of \<^verbatim>\<open>load_students\<close>
  says the same (an integer from 0 to 100 or \<^verbatim>\<open>None\<close>), and \<^verbatim>\<open>add_student\<close> checks the
  range, but the loop of \<^verbatim>\<open>load_students\<close> has no range test: the row
  \<^verbatim>\<open>1,Ann,Math,150\<close> is loaded with the grade 150. A row that ends before the grade
  column does not yield an unknown grade either: the call of \<^verbatim>\<open>strip\<close> on \<^verbatim>\<open>None\<close>
  raises.
\<close>

theorem load_students_grade_150:
  "snd (load_students (Some [sample_row ''1'' ''Ann'' ''Math'' ''150'']))
     = Inr [sample_student 1 ''Ann'' ''Math'' (Some 150)]
   \<and> snd (load_students (Some [short_row])) = Inl AttributeError"
  by code_simp


subsection \<open>Rejected additions\<close>

text \<open>
  Claim C3. When the name is empty after trimming, or the grade text does not parse as
  an integer, or it parses to a value below 0 or above 100, \<^verbatim>\<open>add_student\<close> writes
  nothing: the file is as \<^verbatim>\<open>ensure_file\<close> leaves it, which is the file itself when it
  exists (as it does once the menu loop has started) and the empty table otherwise, and
  loading it gives what loading gave before. The handler ends with the message for the
  first failed check, unless loading the file raised.
\<close>

theorem add_student_rejects:
  assumes "py_strip name_in = []
           \<or> py_int (py_strip grade_in) = None
           \<or> (\<exists>g. py_int (py_strip grade_in) = Some g \<and> (g < 0 \<or> 100 < g))"
  shows "fst (add_student f name_in subject_in grade_in) = ensure_file f
         \<and> (f = Some rows \<longrightarrow> fst (add_student f name_in subject_in grade_in) = Some rows)
         \<and> load_students (fst (add_student f name_in subject_in grade_in)) = load_students f
         \<and> snd (add_student f name_in subject_in grade_in) =
             (case snd (load_students f) of
                Inl e \<Rightarrow> Inl e
              | Inr students \<Rightarrow>
                  Inr (if py_strip name_in = [] then NameEmpty
                       else case py_int (py_strip grade_in) of
                              None \<Rightarrow> GradeInvalid
                            | Some g \<Rightarrow> GradeOutOfRange))"
proof -
  let ?r = "add_student f name_in subject_in grade_in"
  have a: "fst ?r = ensure_file f \<and> snd ?r =
             (case snd (load_students f) of
                Inl e \<Rightarrow> Inl e
              | Inr students \<Rightarrow>
                  Inr (if py_strip name_in = [] then NameEmpty
                       else case py_int (py_strip grade_in) of
                              None \<Rightarrow> GradeInvalid
                            | Some g \<Rightarrow> GradeOutOfRange))"
  proof (cases "snd (load_students f)")
    case (Inl e)
    then show ?thesis by (simp add: add_student_raises)
  next
    case (Inr students)
    with assms show ?thesis
      by (auto simp: add_student_loaded [OF Inr] split: option.splits)
  qed
  then have b: "f = Some rows \<longrightarrow> fst ?r = Some rows"
    by (auto simp: ensure_file_Some)
  from a have c: "load_students (fst ?r) = load_students f"
    by (simp add: load_students_ensure)
  from a b c show ?thesis by blast
qed

text \<open>
  The scenario of C3: the grade \<^verbatim>\<open>150\<close> is refused and the store of two rows stays as
  it is.
\<close>

theorem add_student_rejects_witness:
  "py_int (py_strip ''150'') = Some 150
   \<and> add_student two_rows ''Cy'' ''Math'' ''150'' = (two_rows, Inr GradeOutOfRange)
   \<and> load_students (fst (add_student two_rows ''Cy'' ''Math'' ''150'')) = load_students two_rows"
proof -
  have h: "py_int (py_strip ''150'') = Some 150" by code_simp
  have n: "py_strip ''Cy'' \<noteq> []" by code_simp
  have l: "snd (load_students two_rows)
           = Inr [sample_student 1 ''Ann'' ''Math'' (Some 70), sample_student 2 ''Bob'' ''Art'' None]"
    by code_simp
  have e: "ensure_file two_rows = two_rows" by (simp add: two_rows_def ensure_file_def)
  have a': "py_strip ''Cy'' = [] \<or> py_int (py_strip ''150'') = None
           \<or> (\<exists>g. py_int (py_strip ''150'') = Some g \<and> (g < 0 \<or> 100 < g))"
    using h by simp
  note t = add_student_rejects [OF a', where f = two_rows and subject_in = "''Math''"
      and rows = "[sample_row ''1'' ''Ann'' ''Math'' ''70'', sample_row ''2'' ''Bob'' ''Art'' '''']"]
  from t have 1: "fst (add_student two_rows ''Cy'' ''Math'' ''150'') = two_rows"
    by (simp add: e)
  from t have 2: "snd (add_student two_rows ''Cy'' ''Math'' ''150'') = Inr GradeOutOfRange"
    by (simp add: l n h)
  from t have 3: "load_students (fst (add_student two_rows ''Cy'' ''Math'' ''150''))
                  = load_students two_rows" by blast
  from 1 2 have "add_student two_rows ''Cy'' ''Math'' ''150'' = (two_rows, Inr GradeOutOfRange)"
    by (simp add: prod_eq_iff)
  with h 3 show ?thesis by simp
qed


subsection \<open>Saving and loading\<close>

text \<open>
  Claim C4. Loading what \<^verbatim>\<open>save_students\<close> wrote returns the saved records with
  the text fields trimmed: identifier and grade (known or unknown) are the same, name
  and subject are the saved ones without surrounding whitespace.
\<close>

theorem save_load_round_trip:
  "load_students (save_students f students)
     = (save_students f students, Inr (map normalize_student students))
   \<and> st_id (normalize_student s) = st_id s
   \<and> st_grade (normalize_student s) = st_grade s
   \<and> st_name (normalize_student s) = py_strip (st_name s)
   \<and> st_subject (normalize_student s) = py_strip (st_subject s)"
  by (simp add: load_students_saved normalize_student_def)

text \<open>
  An instance of C4 with untrimmed text, an unknown grade and a negative identifier.
\<close>

theorem save_load_round_trip_witness:
  "load_students (save_students None [sample_student 3 ''  Ann '' ''Math  '' None,
                                       sample_student (- 2) ''Bob'' '''' (Some 150)])
     = (Some [sample_row ''3'' ''  Ann '' ''Math  '' '''', sample_row ''-2'' ''Bob'' '''' ''150''],
        Inr [sample_student 3 ''Ann'' ''Math'' None,
             sample_student (- 2) ''Bob'' '''' (Some 150)])"
proof -
  have a: "save_students None [sample_student 3 ''  Ann '' ''Math  '' None,
                                sample_student (- 2) ''Bob'' '''' (Some 150)]
       = Some [sample_row ''3'' ''  Ann '' ''Math  '' '''', sample_row ''-2'' ''Bob'' '''' ''150'']"
    by code_simp
  have b: "map normalize_student [sample_student 3 ''  Ann '' ''Math  '' None,
                                  sample_student (- 2) ''Bob'' '''' (Some 150)]
       = [sample_student 3 ''Ann'' ''Math'' None, sample_student (- 2) ''Bob'' '''' (Some 150)]"
    by code_simp
  show ?thesis
    using save_load_round_trip [of None "[sample_student 3 ''  Ann '' ''Math  '' None,
                                       sample_student (- 2) ''Bob'' '''' (Some 150)]"]
    by (simp only: a b)
qed


subsection \<open>Deletion\<close>

text \<open>
  Claim C5. Let the store load to records with pairwise distinct identifiers. A
  confirmed deletion of an identifier \<open>k\<close> that occurs splits the list around the one
  record \<open>t\<close> with that identifier; the store then loads to the records before and after
  \<open>t\<close>, unchanged and in their order, none of which has the identifier \<open>k\<close>. When the
  typed identifier is not an integer or occurs in no record, nothing is written: the file
  is as \<^verbatim>\<open>ensure_file\<close> leaves it and loads to the same records.
\<close>

theorem delete_student_exact:
  assumes "snd (load_students f) = Inr students" and "distinct (map st_id students)"
  shows "(py_int (py_strip id_in) = Some k \<and> k \<in> st_id ` set students
            \<and> py_lower (py_strip confirm_in) = ''yes''
          \<longrightarrow> (\<exists>xs t ys. students = xs @ t # ys \<and> st_id t = k
                 \<and> (\<forall>s \<in> set (xs @ ys). st_id s \<noteq> k)
                 \<and> snd (load_students (fst (delete_student f id_in confirm_in)))
                     = Inr (xs @ ys)))
         \<and> (py_int (py_strip id_in) = None
              \<or> (py_int (py_strip id_in) = Some k \<and> k \<notin> st_id ` set students)
            \<longrightarrow> fst (delete_student f id_in confirm_in) = ensure_file f
                \<and> load_students (fst (delete_student f id_in confirm_in)) = load_students f)"
proof (intro conjI impI)
  assume h: "py_int (py_strip id_in) = Some k \<and> k \<in> st_id ` set students
            \<and> py_lower (py_strip confirm_in) = ''yes''"
  then have ne: "students \<noteq> []" by auto
  from h ne have d: "fst (delete_student f id_in confirm_in)
      = save_students (ensure_file f) (filter (\<lambda>s. st_id s \<noteq> k) students)"
    by (simp add: delete_student_loaded [OF assms(1)])
  have n: "map normalize_student students = students"
    using assms(1) by (rule load_students_normalized)
  have l: "snd (load_students (fst (delete_student f id_in confirm_in)))
      = Inr (filter (\<lambda>s. st_id s \<noteq> k) students)"
    by (simp add: d load_students_saved filter_normalized [OF n])
  from h filter_distinct_id [OF assms(2), of k] obtain xs t ys where
    sp: "students = xs @ t # ys" "st_id t = k"
      "filter (\<lambda>s. st_id s \<noteq> k) students = xs @ ys"
    by blast
  have "\<forall>s \<in> set (xs @ ys). st_id s \<noteq> k"
    using assms(2) sp(2) unfolding sp(1) by (auto simp: image_iff)
  with sp l show "\<exists>xs t ys. students = xs @ t # ys \<and> st_id t = k
                 \<and> (\<forall>s \<in> set (xs @ ys). st_id s \<noteq> k)
                 \<and> snd (load_students (fst (delete_student f id_in confirm_in)))
                     = Inr (xs @ ys)"
    by auto
next
  assume h: "py_int (py_strip id_in) = None
              \<or> (py_int (py_strip id_in) = Some k \<and> k \<notin> st_id ` set students)"
  then show "fst (delete_student f id_in confirm_in) = ensure_file f"
    by (auto simp: delete_student_loaded [OF assms(1)])
  then show "load_students (fst (delete_student f id_in confirm_in)) = load_students f"
    by (simp add: load_students_ensure)
qed

text \<open>
  An instance of C5: the second of two records is deleted, and a typed identifier that
  is not a number changes nothing.
\<close>

theorem delete_student_exact_witness:
  "snd (load_students two_rows) = Inr two_students
   \<and> distinct (map st_id two_students)
   \<and> py_int (py_strip '' 2 '') = Some 2 \<and> 2 \<in> st_id ` set two_students
   \<and> py_lower (py_strip ''yes'') = ''yes''
   \<and> (\<exists>xs t ys. two_students = xs @ t # ys \<and> st_id t = 2
         \<and> (\<forall>s \<in> set (xs @ ys). st_id s \<noteq> 2)
         \<and> snd (load_students (fst (delete_student two_rows '' 2 '' ''yes''))) = Inr (xs @ ys))
   \<and> snd (load_students (fst (delete_student two_rows '' 2 '' ''yes'')))
       = Inr [sample_student 1 ''Ann'' ''Math'' (Some 70)]
   \<and> py_int (py_strip ''two'') = None
   \<and> fst (delete_student two_rows ''two'' ''yes'') = ensure_file two_rows"
proof -
  have h7: "snd (load_students (fst (delete_student two_rows '' 2 '' ''yes'')))
       = Inr [sample_student 1 ''Ann'' ''Math'' (Some 70)]" by code_simp
  have h1: "snd (load_students two_rows) = Inr two_students" by code_simp
  have h2: "distinct (map st_id two_students)" by code_simp
  have h3: "py_int (py_strip '' 2 '') = Some 2" by code_simp
  have h4: "2 \<in> st_id ` set two_students" by (simp add: two_students_def sample_student_def)
  have h5: "py_lower (py_strip ''yes'') = ''yes''" by code_simp
  have h6: "py_int (py_strip ''two'') = None" by code_simp
  note a = delete_student_exact [OF h1 h2, where id_in = "'' 2 ''" and k = 2
      and confirm_in = "''yes''"]
  note b = delete_student_exact [OF h1 h2, where id_in = "''two''" and k = 2
      and confirm_in = "''yes''"]
  from a h3 h4 h5 have c: "\<exists>xs t ys. two_students = xs @ t # ys \<and> st_id t = 2
         \<and> (\<forall>s \<in> set (xs @ ys). st_id s \<noteq> 2)
         \<and> snd (load_students (fst (delete_student two_rows '' 2 '' ''yes''))) = Inr (xs @ ys)"
    by blast
  from b h6 have d: "fst (delete_student two_rows ''two'' ''yes'') = ensure_file two_rows"
    by blast
  from h1 h2 h3 h4 h5 h6 h7 c d show ?thesis by blast
qed


subsection \<open>Statistics\<close>

text \<open>
  Claim C6. Records with an unknown grade do not contribute to the report of
  \<^verbatim>\<open>show_stats\<close>: for every subject filter, the count, mean, maximum and minimum are
  the same after the store has been rewritten without these records, and they are the
  length, the mean, the greatest and the least of the known grades of the selected
  records. In the scenario, the grades 70, 80 and 90 in Math next to a Math record with
  unknown grade give count 3, mean 80, highest 90 and lowest 70.
\<close>

theorem show_stats_excludes_unknown:
  assumes "snd (load_students f) = Inr students"
  shows "reported (show_stats (save_students f (filter (\<lambda>s. st_grade s \<noteq> None) students)) flt)
           = reported (show_stats f flt)
         \<and> reported (show_stats f flt) =
             (case known_grades (filter (subject_selected flt) students) of
                [] \<Rightarrow> None
              | g # gs \<Rightarrow>
                  Some (length (g # gs),
                        of_int (sum_list (g # gs)) / of_int (int (length (g # gs))),
                        Max (set (g # gs)), Min (set (g # gs))))
         \<and> reported (show_stats math_store (Some ''Math'')) = Some (3, 80, 90, 70)"
proof -
  let ?graded = "filter (\<lambda>s. st_grade s \<noteq> None) students"
  have n: "map normalize_student students = students"
    using assms by (rule load_students_normalized)
  have l: "snd (load_students (save_students f ?graded)) = Inr ?graded"
    by (simp add: load_students_saved filter_normalized [OF n])
  let ?summary = "\<lambda>ks :: int list. case ks of
        [] \<Rightarrow> None
      | g # gs \<Rightarrow>
          Some (length (g # gs),
                (of_int (sum_list (g # gs)) / of_int (int (length (g # gs))) :: rat),
                Max (set (g # gs)), Min (set (g # gs)))"
  have "reported (show_stats (save_students f ?graded) flt)
        = ?summary (known_grades (filter (subject_selected flt) ?graded))"
    by (rule reported_show_stats [OF l])
  also have "\<dots> = ?summary (known_grades (filter (subject_selected flt) students))"
    by (simp only: known_grades_graded_only)
  also have "\<dots> = reported (show_stats f flt)"
    by (rule reported_show_stats [OF assms, symmetric])
  finally have a: "reported (show_stats (save_students f ?graded) flt)
                   = reported (show_stats f flt)" .
  have b: "reported (show_stats math_store (Some ''Math'')) = Some (3, 80, 90, 70)"
    by code_simp
  from a b reported_show_stats [OF assms, of flt] show ?thesis by blast
qed

text \<open>
  The scenario of C6 with the filter written in lower case.
\<close>

theorem show_stats_excludes_unknown_witness:
  "snd (load_students math_store) = Inr math_students
   \<and> reported (show_stats (save_students math_store
         (filter (\<lambda>s. st_grade s \<noteq> None) math_students)) (Some ''math''))
       = reported (show_stats math_store (Some ''math''))
   \<and> reported (show_stats math_store (Some ''math'')) = Some (3, 80, 90, 70)"
proof -
  have h: "snd (load_students math_store) = Inr math_students" by code_simp
  have k: "known_grades (filter (subject_selected (Some ''math'')) math_students) = [70, 80, 90]"
    by code_simp
  note t = show_stats_excludes_unknown [OF h, of "Some ''math''"]
  from t have a: "reported (show_stats (save_students math_store
         (filter (\<lambda>s. st_grade s \<noteq> None) math_students)) (Some ''math''))
       = reported (show_stats math_store (Some ''math''))" by blast
  from t have "reported (show_stats math_store (Some ''math'')) =
             (case known_grades (filter (subject_selected (Some ''math'')) math_students) of
                [] \<Rightarrow> None
              | g # gs \<Rightarrow>
                  Some (length (g # gs),
                        of_int (sum_list (g # gs)) / of_int (int (length (g # gs))),
                        Max (set (g # gs)), Min (set (g # gs))))" by blast
  then have b: "reported (show_stats math_store (Some ''math'')) = Some (3, 80, 90, 70)"
    by (simp add: k)
  from h a b show ?thesis by blast
qed

text \<open>
  Claim C7. Let the store load, and let a non-empty subject filter be given. Then
  \<^verbatim>\<open>show_stats\<close> reports on exactly the records with a known grade (claim C6) whose
  stored subject equals the filter without regard to case: the outcome is the title with
  the filter and the count, mean, highest and lowest of the known grades of these
  records, or the message that there are none. The same records make up the list
  \<^verbatim>\<open>filtered\<close>. The comparison is between whole texts: a subject of another length
  than the filter is never selected, so a filter that is only a part of the subject does
  not match. In the scenario the filter \<^verbatim>\<open>math\<close> reports on the record with subject
  \<^verbatim>\<open>Math\<close> alone and not on the one with subject \<^verbatim>\<open>Mathematics\<close>.
\<close>

theorem stats_filter_exact:
  assumes "snd (load_students f) = Inr students" and "flt \<noteq> []"
  shows "show_stats f (Some flt) =
           (ensure_file f,
            Inr (if students = [] then NoStudents
                 else case known_grades
                             (filter (\<lambda>s. equal_ignoring_case (st_subject s) flt) students) of
                        [] \<Rightarrow> NoGradedStudents
                      | g # gs \<Rightarrow>
                          Report (''Statistics for subject: '' @ flt) (length (g # gs))
                            (of_int (sum_list (g # gs)) / of_int (int (length (g # gs))))
                            (Max (set (g # gs))) (Min (set (g # gs)))))
         \<and> (s \<in> set (fst (stats_filtered students (Some flt)))
               \<longleftrightarrow> s \<in> set students \<and> st_grade s \<noteq> None
                   \<and> equal_ignoring_case (st_subject s) flt)
         \<and> (equal_ignoring_case (st_subject s) flt
               \<longrightarrow> length (st_subject s) = length flt)
         \<and> show_stats subject_store (Some ''math'')
             = (subject_store, Inr (Report ''Statistics for subject: math'' 1 90 90 90))"
proof -
  have sel: "filter (subject_selected (Some flt)) students
             = filter (\<lambda>s. equal_ignoring_case (st_subject s) flt) students"
    by (rule filter_cong) (simp_all add: subject_selected_Some [OF assms(2)])
  have a: "show_stats f (Some flt) =
           (ensure_file f,
            Inr (if students = [] then NoStudents
                 else case known_grades
                             (filter (\<lambda>s. equal_ignoring_case (st_subject s) flt) students) of
                        [] \<Rightarrow> NoGradedStudents
                      | g # gs \<Rightarrow>
                          Report (''Statistics for subject: '' @ flt) (length (g # gs))
                            (of_int (sum_list (g # gs)) / of_int (int (length (g # gs))))
                            (Max (set (g # gs))) (Min (set (g # gs)))))"
    unfolding show_stats_loaded [OF assms(1)] sel stats_title_Some [OF assms(2)]
    by (simp add: py_max_Max py_min_Min split: list.splits)
  have b: "s \<in> set (fst (stats_filtered students (Some flt)))
               \<longleftrightarrow> s \<in> set students \<and> st_grade s \<noteq> None
                   \<and> equal_ignoring_case (st_subject s) flt"
    using assms(2) by (auto simp: stats_filtered_def py_lower_eq)
  have c: "equal_ignoring_case (st_subject s) flt \<longrightarrow> length (st_subject s) = length flt"
    by (simp add: equal_ignoring_case_def list_all2_lengthD)
  have d: "show_stats subject_store (Some ''math'')
             = (subject_store, Inr (Report ''Statistics for subject: math'' 1 90 90 90))"
    by code_simp
  from a b c d show ?thesis by blast
qed

text \<open>
  The scenario of C7: the store with the subjects \<^verbatim>\<open>Math\<close> and \<^verbatim>\<open>Mathematics\<close>
  under the filter \<^verbatim>\<open>math\<close>, and its two records one by one.
\<close>

theorem stats_filter_exact_witness:
  "snd (load_students subject_store) = Inr subject_students \<and> ''math'' \<noteq> []
   \<and> equal_ignoring_case ''Math'' ''math''
   \<and> \<not> equal_ignoring_case ''Mathematics'' ''math''
   \<and> known_grades (filter (\<lambda>s. equal_ignoring_case (st_subject s) ''math'') subject_students)
       = [90]
   \<and> show_stats subject_store (Some ''math'')
       = (subject_store, Inr (Report ''Statistics for subject: math'' 1 90 90 90))
   \<and> sample_student 1 ''Ann'' ''Math'' (Some 90)
        \<in> set (fst (stats_filtered subject_students (Some ''math'')))
   \<and> sample_student 2 ''Bob'' ''Mathematics'' (Some 80)
        \<notin> set (fst (stats_filtered subject_students (Some ''math'')))"
proof -
  have h1: "snd (load_students subject_store) = Inr subject_students" by code_simp
  have h2: "''math'' \<noteq> []" by simp
  have m1: "equal_ignoring_case ''Math'' ''math''" by code_simp
  have m2: "\<not> equal_ignoring_case ''Mathematics'' ''math''" by code_simp
  have k: "known_grades
             (filter (\<lambda>s. equal_ignoring_case (st_subject s) ''math'') subject_students) = [90]"
    by code_simp
  have ne: "subject_students \<noteq> []" by (simp add: subject_students_def)
  have e: "ensure_file subject_store = subject_store"
    by (simp add: subject_store_def ensure_file_def)
  have i1: "sample_student 1 ''Ann'' ''Math'' (Some 90) \<in> set subject_students"
    by (simp add: subject_students_def)
  have i2: "sample_student 2 ''Bob'' ''Mathematics'' (Some 80) \<in> set subject_students"
    by (simp add: subject_students_def)
  note t1 = stats_filter_exact [OF h1 h2, of "sample_student 1 ''Ann'' ''Math'' (Some 90)"]
  note t2 = stats_filter_exact [OF h1 h2, of "sample_student 2 ''Bob'' ''Mathematics'' (Some 80)"]
  from t1 have "show_stats subject_store (Some ''math'') =
           (ensure_file subject_store,
            Inr (if subject_students = [] then NoStudents
                 else case known_grades
                        (filter (\<lambda>s. equal_ignoring_case (st_subject s) ''math'')
                           subject_students) of
                        [] \<Rightarrow> NoGradedStudents
                      | g # gs \<Rightarrow>
                          Report (''Statistics for subject: '' @ ''math'') (length (g # gs))
                            (of_int (sum_list (g # gs)) / of_int (int (length (g # gs))))
                            (Max (set (g # gs))) (Min (set (g # gs)))))"
    by blast
  then have a: "show_stats subject_store (Some ''math'')
       = (subject_store, Inr (Report ''Statistics for subject: math'' 1 90 90 90))"
    by (simp add: k ne e)
  from t1 i1 m1 have b: "sample_student 1 ''Ann'' ''Math'' (Some 90)
        \<in> set (fst (stats_filtered subject_students (Some ''math'')))"
    by (simp add: sample_student_def)
  from t2 i2 m2 have c: "sample_student 2 ''Bob'' ''Mathematics'' (Some 80)
        \<notin> set (fst (stats_filtered subject_students (Some ''math'')))"
    by (simp add: sample_student_def)
  from h1 h2 m1 m2 k a b c show ?thesis by blast
qed


subsection \<open>Confirmation of a deletion\<close>

text \<open>
  Claim C8 says that the deletion is performed exactly when the response equals one
  literal token. The handler trims and lowercases the response before it compares it
  with \<^verbatim>\<open>yes\<close>, so the responses \<^verbatim>\<open>Yes\<close> and \<^verbatim>\<open>YES\<close> between blanks, neither of
  which is that token, delete as well.
\<close>

theorem delete_confirmation_counterexample:
  "'' YES '' \<noteq> ''yes'' \<and> ''Yes'' \<noteq> ''yes''
   \<and> delete_student two_rows ''2'' '' YES ''
       = (Some [sample_row ''1'' ''Ann'' ''Math'' ''70''], Inr (Deleted 2))
   \<and> delete_student two_rows ''2'' ''Yes''
       = (Some [sample_row ''1'' ''Ann'' ''Math'' ''70''], Inr (Deleted 2))
   \<and> delete_student two_rows ''2'' ''yes''
       = (Some [sample_row ''1'' ''Ann'' ''Math'' ''70''], Inr (Deleted 2))"
  by code_simp

text \<open>
  Claim C8 as amended. For a typed identifier that parses and occurs in the store, the
  deletion is performed exactly when the response, trimmed of surrounding whitespace and
  lowercased, equals \<^verbatim>\<open>yes\<close>; the file is then rewritten without the records of that
  identifier. Every other response ends with the cancellation message and writes
  nothing.
\<close>

theorem delete_confirmation_normalized:
  assumes "snd (load_students f) = Inr students"
      and "py_int (py_strip id_in) = Some k"
      and "k \<in> st_id ` set students"
  shows "(snd (delete_student f id_in confirm_in) = Inr (Deleted k)
            \<longleftrightarrow> py_lower (py_strip confirm_in) = ''yes'')
         \<and> (py_lower (py_strip confirm_in) = ''yes''
              \<longrightarrow> fst (delete_student f id_in confirm_in)
                    = save_students (ensure_file f) (filter (\<lambda>s. st_id s \<noteq> k) students))
         \<and> (py_lower (py_strip confirm_in) \<noteq> ''yes''
              \<longrightarrow> delete_student f id_in confirm_in = (ensure_file f, Inr Cancelled))"
proof -
  from assms(3) have ne: "students \<noteq> []" by auto
  show ?thesis
    using assms(2,3) ne by (simp add: delete_student_loaded [OF assms(1)])
qed

text \<open>
  Instances of the amended C8: an accepted and a refused response.
\<close>

theorem delete_confirmation_normalized_witness:
  "snd (load_students two_rows) = Inr two_students
   \<and> py_int (py_strip ''2'') = Some 2 \<and> 2 \<in> st_id ` set two_students
   \<and> py_lower (py_strip '' YES '') = ''yes''
   \<and> snd (delete_student two_rows ''2'' '' YES '') = Inr (Deleted 2)
   \<and> py_lower (py_strip ''y'') \<noteq> ''yes''
   \<and> delete_student two_rows ''2'' ''y'' = (ensure_file two_rows, Inr Cancelled)"
proof -
  have h1: "snd (load_students two_rows) = Inr two_students" by code_simp
  have h2: "py_int (py_strip ''2'') = Some 2" by code_simp
  have h3: "2 \<in> st_id ` set two_students" by (simp add: two_students_def sample_student_def)
  have c1: "py_lower (py_strip '' YES '') = ''yes''" by code_simp
  have c2: "py_lower (py_strip ''y'') \<noteq> ''yes''" by code_simp
  from delete_confirmation_normalized [OF h1 h2 h3, of "'' YES ''"] c1
  have a: "snd (delete_student two_rows ''2'' '' YES '') = Inr (Deleted 2)" by blast
  from delete_confirmation_normalized [OF h1 h2 h3, of "''y''"] c2
  have b: "delete_student two_rows ''2'' ''y'' = (ensure_file two_rows, Inr Cancelled)" by blast
  from h1 h2 h3 c1 c2 a b show ?thesis by blast
qed


subsection \<open>Default subject\<close>

text \<open>
  Claim C9 says that every record has a non-empty subject because an omitted subject
  becomes \<^verbatim>\<open>General\<close> on load as well as on add. \<^verbatim>\<open>load_students\<close> has no such
  default: a row with a blank subject, and a row of a table without a subject column,
  are loaded with the empty subject.
\<close>

theorem load_subject_counterexample:
  "snd (load_students (Some [blank_subject_row])) = Inr [sample_student 1 ''Ann'' [] (Some 90)]
   \<and> snd (load_students (Some [no_subject_row])) = Inr [sample_student 2 ''Bob'' [] (Some 80)]
   \<and> st_subject (sample_student 1 ''Ann'' [] (Some 90)) = []
   \<and> st_subject (sample_student 1 ''Ann'' [] (Some 90)) \<noteq> ''General''"
  by code_simp

text \<open>
  Claim C9 as amended. A record created by \<^verbatim>\<open>add_student\<close> has a non-empty subject:
  the trimmed input, or \<^verbatim>\<open>General\<close> when that is empty; this record is appended to the
  loaded ones and saved. \<^verbatim>\<open>load_students\<close> applies no default: a row whose subject
  column is absent or blank is loaded with the empty subject.
\<close>

theorem subject_default_on_add:
  "(snd (add_student f name_in subject_in grade_in) = Inr (Added r)
      \<longrightarrow> st_subject r \<noteq> []
          \<and> st_subject r = (if py_strip subject_in = [] then ''General'' else py_strip subject_in)
          \<and> (\<exists>students. snd (load_students f) = Inr students
                \<and> fst (add_student f name_in subject_in grade_in)
                    = save_students (ensure_file f) (students @ [r])))
   \<and> (snd (load_students (Some [row])) = Inr [r']
        \<and> (row_subject row = Missing \<or> (\<exists>s. row_subject row = Str s \<and> py_strip s = []))
      \<longrightarrow> st_subject r' = [])"
proof -
  have a: "snd (add_student f name_in subject_in grade_in) = Inr (Added r)
      \<longrightarrow> st_subject r \<noteq> []
          \<and> st_subject r = (if py_strip subject_in = [] then ''General'' else py_strip subject_in)
          \<and> (\<exists>students. snd (load_students f) = Inr students
                \<and> fst (add_student f name_in subject_in grade_in)
                    = save_students (ensure_file f) (students @ [r]))"
  proof (cases "snd (load_students f)")
    case (Inl e)
    then show ?thesis by (simp add: add_student_raises)
  next
    case (Inr students)
    then show ?thesis
      by (auto simp: add_student_loaded [OF Inr] split: if_splits option.splits)
  qed
  have b: "snd (load_students (Some [row])) = Inr [r']
        \<and> (row_subject row = Missing \<or> (\<exists>s. row_subject row = Str s \<and> py_strip s = []))
      \<longrightarrow> st_subject r' = []"
  proof
    assume h: "snd (load_students (Some [row])) = Inr [r']
        \<and> (row_subject row = Missing \<or> (\<exists>s. row_subject row = Str s \<and> py_strip s = []))"
    then have s: "get_strip (row_subject row) = Inr []"
      by (auto simp: py_strip_Nil)
    from h have "load_rows [row] [] = Inr [r']" by (simp add: load_students_Some)
    then show "st_subject r' = []"
      using s by (auto simp: Let_def split: if_splits option.splits sum.splits)
  qed
  from a b show ?thesis by blast
qed

text \<open>
  Instances of the amended C9: an addition with a blank subject, and the load of a
  row with a blank subject.
\<close>

theorem subject_default_on_add_witness:
  "snd (add_student two_rows ''Cy'' ''  '' ''85'')
     = Inr (Added (sample_student 3 ''Cy'' ''General'' (Some 85)))
   \<and> st_subject (sample_student 3 ''Cy'' ''General'' (Some 85)) \<noteq> []
   \<and> snd (load_students (Some [blank_subject_row])) = Inr [sample_student 1 ''Ann'' [] (Some 90)]
   \<and> (row_subject blank_subject_row = Missing
        \<or> (\<exists>s. row_subject blank_subject_row = Str s \<and> py_strip s = []))
   \<and> st_subject (sample_student 1 ''Ann'' [] (Some 90)) = []"
proof -
  have h1: "snd (add_student two_rows ''Cy'' ''  '' ''85'')
     = Inr (Added (sample_student 3 ''Cy'' ''General'' (Some 85)))" by code_simp
  have h2: "snd (load_students (Some [blank_subject_row]))
     = Inr [sample_student 1 ''Ann'' [] (Some 90)]" by code_simp
  have e: "py_strip ''  '' = []" by code_simp
  have h3: "row_subject blank_subject_row = Missing
        \<or> (\<exists>s. row_subject blank_subject_row = Str s \<and> py_strip s = [])"
    by (simp add: blank_subject_row_def sample_row_def e)
  note t = subject_default_on_add [of two_rows "''Cy''" "''  ''" "''85''"
      "sample_student 3 ''Cy'' ''General'' (Some 85)" blank_subject_row
      "sample_student 1 ''Ann'' [] (Some 90)"]
  from t h1 have a: "st_subject (sample_student 3 ''Cy'' ''General'' (Some 85)) \<noteq> []"
    by blast
  from t h2 h3 have b: "st_subject (sample_student 1 ''Ann'' [] (Some 90)) = []"
    by blast
  from h1 h2 h3 a b show ?thesis by blast
qed


subsection \<open>Order of the records\<close>

text \<open>
  Claim C10. \<^verbatim>\<open>save_students\<close> writes one row per record in list order, and loading
  the saved file returns as many records with the same sequence of identifiers.
\<close>

theorem save_load_keeps_order:
  "\<exists>loaded. snd (load_students (save_students f students)) = Inr loaded
     \<and> length loaded = length students
     \<and> map st_id loaded = map st_id students
     \<and> save_students f students = Some (map student_row students)"
proof -
  have "snd (load_students (save_students f students))
        = Inr (map normalize_student students)"
    by (simp add: load_students_saved)
  moreover have "map st_id (map normalize_student students) = map st_id students"
    by (simp add: normalize_student_def comp_def)
  moreover have "save_students f students = Some (map student_row students)"
    by (simp add: save_students_def)
  ultimately show ?thesis
    by (intro exI [of _ "map normalize_student students"]) simp
qed

text \<open>
  An instance of C10 with the identifiers 1, 2 and 4.
\<close>

theorem save_load_keeps_order_witness:
  "\<exists>loaded. snd (load_students (save_students None ids_124)) = Inr loaded
     \<and> map st_id loaded = [1, 2, 4]"
proof -
  have h1: "map st_id ids_124 = [1, 2, 4]" by (simp add: ids_124_def sample_student_def)
  show ?thesis using save_load_keeps_order [of None ids_124] by (auto simp: h1)
qed

end
